theory Spec2Isabelle
  imports Complex_Main
begin

section \<open>The GIMME reconstruction pipeline of troppo\<close>

text \<open>
  The development embeds \<^verbatim>\<open>reconstruction/methods/gimme.py\<close> (class \<^verbatim>\<open>GIMME\<close>),
  the constructor of \<^verbatim>\<open>GIMMEProperties\<close> in
  \<^verbatim>\<open>reconstruction/reconstruction_properties.py\<close> and the \<^verbatim>\<open>try\<close> block that
  ends \<^verbatim>\<open>ReconstructionWrapper.run_from_omics\<close> in \<^verbatim>\<open>troppo/methods_wrappers.py\<close>.

  Conventions.
  \<^item> Python floats are idealised as \<^typ>\<open>real\<close> (no rounding, no NaN).
  \<^item> A one-dimensional NumPy array is a list; a two-dimensional one (the
    stoichiometric matrix) is the list of its columns, so that \<^verbatim>\<open>S.shape[1]\<close> is
    the length of the list and \<^verbatim>\<open>S[:, idx]\<close> selects elements of it.
  \<^item> A Python \<^verbatim>\<open>dict\<close> is the list of its items in insertion order, keys distinct.
  \<^item> Every exception is a value: a function that can raise returns
    \<open>py_error + 'a\<close>, with \<open>Inl\<close> for the exception.
  \<^item> The LP solver (cobamp) is outside the repository: it is a parameter.
  \<^item> In \<^verbatim>\<open>make_irreversible\<close> the names \<^verbatim>\<open>rx_mapping\<close> and \<^verbatim>\<open>irrev_mapping\<close>
    are read and bound nowhere: they are parameters of the model. Every other line is
    modelled as Python and NumPy execute it; in the properties module that includes
    the look-up of the names \<^verbatim>\<open>ndarray\<close> and \<^verbatim>\<open>array\<close>, which the module never
    imports.
  \<^item> Each step is a function of the values that reach it. The lines of
    \<^verbatim>\<open>preprocess\<close> and \<^verbatim>\<open>run\<close> that only fetch properties and pass values along
    (12-23, 32-45, 61-63) and \<^verbatim>\<open>adjust_objective_to_irreversible\<close> have no function
    of their own here.
\<close>

datatype py_error =
    NameError | TypeError | ValueError | IndexError | KeyError | AssertionError
  | SolverError string
  | ReconstructionInfeasibleError nat

text \<open>
  \<open>SolverError\<close> stands for whatever the external solver raises.
  \<open>ReconstructionInfeasibleError\<close> is the error the specification names; no line of
  the source raises it.
\<close>

definition ebind :: "'e + 'a \<Rightarrow> ('a \<Rightarrow> 'e + 'b) \<Rightarrow> 'e + 'b" where
  "ebind m f = (case m of Inl e \<Rightarrow> Inl e | Inr x \<Rightarrow> f x)"

fun mapM :: "('a \<Rightarrow> 'e + 'b) \<Rightarrow> 'a list \<Rightarrow> 'e + 'b list" where
  "mapM f [] = Inr []"
| "mapM f (x # xs) = ebind (f x) (\<lambda>y. ebind (mapM f xs) (\<lambda>ys. Inr (y # ys)))"

text \<open>\<^verbatim>\<open>xs[i]\<close> for a non-negative \<open>i\<close>.\<close>

definition getitem :: "'a list \<Rightarrow> nat \<Rightarrow> py_error + 'a" where
  "getitem xs i = (if i < length xs then Inr (xs ! i) else Inl IndexError)"

text \<open>
  A name bound to a NumPy value is either a scalar (\<^verbatim>\<open>numpy.float64\<close>, or the
  Python number \<open>0\<close>) or a one-dimensional array.
\<close>

datatype npval = Scalar real | Array "real list"

text \<open>\<^verbatim>\<open>a[i] = v\<close>: a scalar supports no item assignment.\<close>

fun setitem :: "npval \<Rightarrow> nat \<Rightarrow> real \<Rightarrow> py_error + npval" where
  "setitem (Scalar x) i v = Inl TypeError"
| "setitem (Array xs) i v = (if i < length xs then Inr (Array (xs[i := v])) else Inl IndexError)"

type_synonym matrix = "real list list"

text \<open>
  The value of an entry of the reaction map: an \<^verbatim>\<open>int\<close> for a reaction that is kept,
  a \<^verbatim>\<open>tuple\<close> (forward, backward) for one that is split.
\<close>

datatype slot = Index nat | Tuple nat nat

type_synonym rx_dict = "(nat \<times> slot) list"

text \<open>\<^verbatim>\<open>d[k] = v\<close> and \<^verbatim>\<open>d.update(new)\<close> on a dict kept in insertion order.\<close>

fun dict_set :: "'k \<Rightarrow> 'v \<Rightarrow> ('k \<times> 'v) list \<Rightarrow> ('k \<times> 'v) list" where
  "dict_set k v [] = [(k, v)]"
| "dict_set k v ((k', v') # d) = (if k = k' then (k, v) # d else (k', v') # dict_set k v d)"

definition dict_update :: "('k \<times> 'v) list \<Rightarrow> ('k \<times> 'v) list \<Rightarrow> ('k \<times> 'v) list" where
  "dict_update d new = fold (\<lambda>(k, v). dict_set k v) new d"

text \<open>\<^verbatim>\<open>d[k]\<close>: a missing key raises \<^verbatim>\<open>KeyError\<close>.\<close>

definition dict_get :: "('k \<times> 'v) list \<Rightarrow> 'k \<Rightarrow> py_error + 'v" where
  "dict_get d k = (case map_of d k of None \<Rightarrow> Inl KeyError | Some v \<Rightarrow> Inr v)"

subsection \<open>The irreversibility transform (\<^verbatim>\<open>GIMME.make_irreversible\<close>, lines 81-98)\<close>

text \<open>
  Line 82: \<^verbatim>\<open>irrev = np.array([i for i in range(self.S.shape[1])
        if not (lb[i] < 0 and ub[i] > 0)])\<close>.
  \<^verbatim>\<open>and\<close> reads \<^verbatim>\<open>ub[i]\<close> only when \<^verbatim>\<open>lb[i] < 0\<close>.
\<close>

definition reversible :: "real list \<Rightarrow> real list \<Rightarrow> nat \<Rightarrow> py_error + bool" where
  "reversible lb ub i =
     ebind (getitem lb i) (\<lambda>l.
       if l < 0 then ebind (getitem ub i) (\<lambda>u. Inr (u > 0)) else Inr False)"

fun irrev_indices :: "real list \<Rightarrow> real list \<Rightarrow> nat list \<Rightarrow> py_error + nat list" where
  "irrev_indices lb ub [] = Inr []"
| "irrev_indices lb ub (i # rest) =
     ebind (reversible lb ub i) (\<lambda>r.
     ebind (irrev_indices lb ub rest) (\<lambda>more. Inr (if r then more else i # more)))"

text \<open>
  Line 83: \<^verbatim>\<open>Si, Sr = S[:,irrev], S[:,-irrev]\<close>. The index is an array of
  integers, negative ones counting from the last column. \<^verbatim>\<open>np.array([])\<close> of an
  empty Python list has dtype \<^verbatim>\<open>float64\<close>, which NumPy refuses as an index
  (\<^verbatim>\<open>IndexError\<close>). \<^verbatim>\<open>-irrev\<close> negates every index; it is not the complement.
\<close>

definition take_columns :: "matrix \<Rightarrow> int list \<Rightarrow> py_error + matrix" where
  "take_columns S idx =
     (if idx = [] then Inl IndexError
      else if list_all (\<lambda>j. - int (length S) \<le> j \<and> j < int (length S)) idx
      then Inr (map (\<lambda>j. S ! nat (if j < 0 then j + int (length S) else j)) idx)
      else Inl IndexError)"

text \<open>
  Lines 82-89, up to \<^verbatim>\<open>S_new = np.hstack([Si, Sr, -Sr])\<close>. Line 86 is
  \<^verbatim>\<open>rx_mapping.update({ii:(offset+n, offset+n+Sr.shape[1]) for n,ii in
        enumerate([i for i in range(S.shape[1]) if i not in irrev])]})\<close>
  (the bracket before the closing brace has no partner; it is read without it), and
  line 87 is \<^verbatim>\<open>rx_mapping.update(irrev_mapping)\<close>. Neither \<^verbatim>\<open>rx_mapping\<close> nor
  \<^verbatim>\<open>irrev_mapping\<close> is bound anywhere in the function or the module: both are
  parameters here (\<open>rx_mapping0\<close> is the dict that line 86 updates).
\<close>

definition irreversible_layout ::
  "rx_dict \<Rightarrow> rx_dict \<Rightarrow> matrix \<Rightarrow> real list \<Rightarrow> real list \<Rightarrow> py_error + (matrix \<times> rx_dict)" where
  "irreversible_layout rx_mapping0 irrev_mapping S lb ub =
     ebind (irrev_indices lb ub [0..<length S]) (\<lambda>irrev.
     ebind (take_columns S (map int irrev)) (\<lambda>Si.
     ebind (take_columns S (map (\<lambda>i. - int i) irrev)) (\<lambda>Sr.
       let offset = length Si;
           rev_rxns = filter (\<lambda>i. i \<notin> set irrev) [0..<length S];
           rx_mapping1 = dict_update rx_mapping0
             (map (\<lambda>(n, ii). (ii, Tuple (offset + n) (offset + n + length Sr)))
                (enumerate 0 rev_rxns));
           rx_mapping = dict_update rx_mapping1 irrev_mapping;
           S_new = Si @ Sr @ map (map uminus) Sr
       in Inr (S_new, rx_mapping))))"

text \<open>
  Modelled from the spec: \<^verbatim>\<open>irrev_mapping\<close>, the dict that line 87 merges into the
  reaction map, is bound nowhere in the source. The specification (4.1, steps 2 and 3)
  gives it: columns \<open>0..|irrev|-1\<close> are the original irreversible columns in order,
  and an irreversible reaction maps to its new single index.
\<close>

definition irrev_mapping_spec :: "nat list \<Rightarrow> rx_dict" where
  "irrev_mapping_spec irrev = map (\<lambda>(n, i). (i, Index n)) (enumerate 0 irrev)"

text \<open>
  Line 90: \<^verbatim>\<open>nlb, nub = np.zeros(S_new.shape[1])\<close> unpacks one array into two names:
  \<^verbatim>\<open>ValueError\<close> unless the array has exactly two elements, which then are two
  scalars.
\<close>

definition unpack2 :: "real list \<Rightarrow> py_error + (npval \<times> npval)" where
  "unpack2 xs = (case xs of [a, b] \<Rightarrow> Inr (Scalar a, Scalar b) | _ \<Rightarrow> Inl ValueError)"

text \<open>
  Lines 91-96:
  \<^verbatim>\<open>for orig_rx, new_rx in rx_mapping.items():
      if isinstance(new_rx, tuple):
          nub[new_rx[0]] = lb[orig_rx]
          nub[new_rx[1]] = ub[orig_rx]
      else:
          nlb[new_rx], nub[new_rx] = lb[orig_rx], ub[orig_rx]\<close>
\<close>

fun bounds_loop ::
  "rx_dict \<Rightarrow> real list \<Rightarrow> real list \<Rightarrow> npval \<times> npval \<Rightarrow> py_error + (npval \<times> npval)" where
  "bounds_loop [] lb ub (nlb, nub) = Inr (nlb, nub)"
| "bounds_loop ((orig_rx, Tuple fwd bwd) # rest) lb ub (nlb, nub) =
     ebind (getitem lb orig_rx) (\<lambda>l.
     ebind (setitem nub fwd l) (\<lambda>nub1.
     ebind (getitem ub orig_rx) (\<lambda>u.
     ebind (setitem nub1 bwd u) (\<lambda>nub2.
     bounds_loop rest lb ub (nlb, nub2)))))"
| "bounds_loop ((orig_rx, Index new_rx) # rest) lb ub (nlb, nub) =
     ebind (getitem lb orig_rx) (\<lambda>l.
     ebind (getitem ub orig_rx) (\<lambda>u.
     ebind (setitem nlb new_rx l) (\<lambda>nlb1.
     ebind (setitem nub new_rx u) (\<lambda>nub1.
     bounds_loop rest lb ub (nlb1, nub1)))))"

definition make_irreversible ::
  "rx_dict \<Rightarrow> rx_dict \<Rightarrow> matrix \<Rightarrow> real list \<Rightarrow> real list
     \<Rightarrow> py_error + (matrix \<times> npval \<times> npval \<times> rx_dict)" where
  "make_irreversible rx_mapping0 irrev_mapping S lb ub =
     ebind (irreversible_layout rx_mapping0 irrev_mapping S lb ub) (\<lambda>(S_new, rx_mapping).
     ebind (unpack2 (replicate (length S_new) 0)) (\<lambda>(nlb, nub).
     ebind (bounds_loop rx_mapping lb ub (nlb, nub)) (\<lambda>(nlb, nub).
     Inr (S_new, nlb, nub, rx_mapping))))"

subsection \<open>Evidence mapping (\<^verbatim>\<open>GIMME.preprocess\<close>, lines 26-30)\<close>

text \<open>
  \<^verbatim>\<open>exp_vector = np.zeros(Sn.shape[1],)
  for rxn, val in exp_rxns.items():
      rxmap = irrev_mapping[rxn]
      if isinstance(rxmap, tuple):
          exp_vector[rxmap[0]] = exp_vector[rxmap[1]] = val\<close>

  The \<^verbatim>\<open>if\<close> has no \<^verbatim>\<open>else\<close>. The chained assignment stores left to right.
\<close>

definition setitem_list :: "real list \<Rightarrow> nat \<Rightarrow> real \<Rightarrow> py_error + real list" where
  "setitem_list xs i v = (if i < length xs then Inr (xs[i := v]) else Inl IndexError)"

fun exp_vector_loop :: "(nat \<times> real) list \<Rightarrow> rx_dict \<Rightarrow> real list \<Rightarrow> py_error + real list" where
  "exp_vector_loop [] irrev_mapping exp_vector = Inr exp_vector"
| "exp_vector_loop ((rxn, val) # rest) irrev_mapping exp_vector =
     ebind (dict_get irrev_mapping rxn) (\<lambda>rxmap.
       case rxmap of
         Tuple fwd bwd \<Rightarrow>
           ebind (setitem_list exp_vector fwd val) (\<lambda>ev1.
           ebind (setitem_list ev1 bwd val) (\<lambda>ev2.
           exp_vector_loop rest irrev_mapping ev2))
       | Index new_rx \<Rightarrow> exp_vector_loop rest irrev_mapping exp_vector)"

definition preprocess_exp_vector :: "(nat \<times> real) list \<Rightarrow> rx_dict \<Rightarrow> matrix \<Rightarrow> py_error + real list" where
  "preprocess_exp_vector exp_rxns irrev_mapping Sn =
     exp_vector_loop exp_rxns irrev_mapping (replicate (length Sn) 0)"


subsection \<open>Phase 2: the penalty objective (\<^verbatim>\<open>GIMME.run\<close>, line 55)\<close>

text \<open>
  \<^verbatim>\<open>gimme_model_objective = np.array([flux_thres - exp_vector[i]
        if -1 < exp_vector[i] < flux_thres else 0 for i in range(N)])\<close>

  \<^verbatim>\<open>exp_vector[i]\<close> raises \<^verbatim>\<open>IndexError\<close> when \<open>i\<close> is past the end of the vector.
\<close>

definition gimme_model_objective :: "real \<Rightarrow> real list \<Rightarrow> nat \<Rightarrow> py_error + real list" where
  "gimme_model_objective flux_thres exp_vector N =
     (if N \<le> length exp_vector
      then Inr (map (\<lambda>i. if -1 < exp_vector ! i \<and> exp_vector ! i < flux_thres
                           then flux_thres - exp_vector ! i else 0) [0..<N])
      else Inl IndexError)"

subsection \<open>Phase 1: one solve per objective (\<^verbatim>\<open>GIMME.run\<close>, lines 48-53)\<close>

text \<open>
  What the external optimizer returns: a status, an objective value and the items of
  \<^verbatim>\<open>var_values()\<close>, keyed by the variable names the system was built with.
\<close>

datatype lp_status = Optimal | Infeasible | Unbounded

record solution =
  status :: lp_status
  objective_value :: real
  var_values :: "(string \<times> real) list"

text \<open>
  An optimizer bound to one linear system: the objective and the second argument of
  \<^verbatim>\<open>set_objective\<close> (absent in phase 2) go in, a solution or an exception comes out.

  \<^verbatim>\<open>def find_objective_value(obj):
      lsystem.set_objective(obj, False)
      sol = lso.optimize()
      return sol.objective_value()
  objective_values = list(map(find_objective_value, objectives))\<close>
\<close>

type_synonym optimizer = "real list \<Rightarrow> bool option \<Rightarrow> py_error + solution"

definition find_objective_value :: "optimizer \<Rightarrow> real list \<Rightarrow> py_error + real" where
  "find_objective_value optimize obj =
     ebind (optimize obj (Some False)) (\<lambda>sol. Inr (objective_value sol))"

definition objective_values :: "optimizer \<Rightarrow> real list list \<Rightarrow> py_error + real list" where
  "objective_values optimize objectives = mapM (find_objective_value optimize) objectives"

subsection \<open>Bound tightening (\<^verbatim>\<open>GIMME.run\<close>, lines 57-59)\<close>

text \<open>
  \<^verbatim>\<open>objective_lbs = sum(list(map(lambda a,b: a*b, objectives, objective_values)))
  objective_ids = np.nonzero(objective_lbs)[0]
  lb[objective_ids] = objective_lbs[objective_ids]\<close>

  \<^verbatim>\<open>sum\<close> starts from the Python number \<open>0\<close> and adds with NumPy's broadcasting:
  two arrays add when their lengths agree or one of them has length one. With no
  objective the sum stays the number \<open>0\<close>, which cannot be subscripted on line 59
  (\<^verbatim>\<open>TypeError\<close>; NumPy from 2.1 on already refuses it on line 58, with
  \<^verbatim>\<open>ValueError\<close>). Line 59 raises \<^verbatim>\<open>IndexError\<close> when an index is past the end of
  \<^verbatim>\<open>lb\<close>.
\<close>

fun np_add :: "npval \<Rightarrow> npval \<Rightarrow> py_error + npval" where
  "np_add (Scalar a) (Scalar b) = Inr (Scalar (a + b))"
| "np_add (Scalar a) (Array ys) = Inr (Array (map (\<lambda>y. a + y) ys))"
| "np_add (Array xs) (Scalar b) = Inr (Array (map (\<lambda>x. x + b) xs))"
| "np_add (Array xs) (Array ys) =
     (if length xs = length ys then Inr (Array (map2 (+) xs ys))
      else if length xs = 1 then Inr (Array (map (\<lambda>y. hd xs + y) ys))
      else if length ys = 1 then Inr (Array (map (\<lambda>x. x + hd ys) xs))
      else Inl ValueError)"

fun py_sum :: "npval \<Rightarrow> npval list \<Rightarrow> py_error + npval" where
  "py_sum acc [] = Inr acc"
| "py_sum acc (x # xs) = ebind (np_add acc x) (\<lambda>acc'. py_sum acc' xs)"

definition objective_lbs :: "real list list \<Rightarrow> real list \<Rightarrow> py_error + npval" where
  "objective_lbs objectives objective_vals =
     py_sum (Scalar 0) (map2 (\<lambda>a b. Array (map (\<lambda>x. x * b) a)) objectives objective_vals)"

definition nonzero :: "real list \<Rightarrow> nat list" where
  "nonzero xs = filter (\<lambda>i. xs ! i \<noteq> 0) [0..<length xs]"

definition tighten_lb :: "real list \<Rightarrow> real list list \<Rightarrow> real list \<Rightarrow> py_error + real list" where
  "tighten_lb lb objectives objective_vals =
     ebind (objective_lbs objectives objective_vals) (\<lambda>olbs.
       case olbs of
         Scalar z \<Rightarrow> Inl TypeError
       | Array olb \<Rightarrow>
           let objective_ids = nonzero olb in
           if list_all (\<lambda>i. i < length lb) objective_ids
           then Inr (fold (\<lambda>i l. l[i := olb ! i]) objective_ids lb)
           else Inl IndexError)"

subsection \<open>Activity calls (\<^verbatim>\<open>GIMME.get_reaction_activity\<close>, lines 100-107)\<close>

text \<open>
  \<^verbatim>\<open>gimme_fluxes = np.array([kv[0] for i, kv in
        enumerate(solution.var_values().items())])
  activity = np.zeros(gimme_fluxes.shape)
  activity[(exp_vector > flux_threshold) | (exp_vector == -1)] = 1
  activity[gimme_fluxes > 0] = 2
  return activity\<close>

  \<^verbatim>\<open>kv\<close> is an item \<^verbatim>\<open>(key, value)\<close> of the dict, so \<^verbatim>\<open>kv[0]\<close> is the key: the
  name of the variable. \<^verbatim>\<open>np.array\<close> of a list of strings is an array of strings
  (of floats when the list is empty), and comparing an array of strings with \<open>0\<close>
  raises \<^verbatim>\<open>TypeError\<close>. A boolean mask indexes an array of its own length only.
\<close>

datatype ndarray = FloatArray "real list" | StrArray "string list"

definition np_array_of_strs :: "string list \<Rightarrow> ndarray" where
  "np_array_of_strs ks = (if ks = [] then FloatArray [] else StrArray ks)"

fun np_shape :: "ndarray \<Rightarrow> nat" where
  "np_shape (FloatArray xs) = length xs"
| "np_shape (StrArray ks) = length ks"

fun np_greater_zero :: "ndarray \<Rightarrow> py_error + bool list" where
  "np_greater_zero (FloatArray xs) = Inr (map (\<lambda>x. x > 0) xs)"
| "np_greater_zero (StrArray ks) = Inl TypeError"

definition mask_assign :: "real list \<Rightarrow> bool list \<Rightarrow> real \<Rightarrow> py_error + real list" where
  "mask_assign a bmask v =
     (if length bmask = length a then Inr (map2 (\<lambda>x m. if m then v else x) a bmask)
      else Inl IndexError)"

definition activity_of_fluxes :: "ndarray \<Rightarrow> real list \<Rightarrow> real \<Rightarrow> py_error + real list" where
  "activity_of_fluxes gimme_fluxes exp_vector flux_threshold =
     (let activity = replicate (np_shape gimme_fluxes) 0 in
      ebind (mask_assign activity (map (\<lambda>e. e > flux_threshold \<or> e = -1) exp_vector) 1) (\<lambda>activity1.
      ebind (np_greater_zero gimme_fluxes) (\<lambda>positive.
      mask_assign activity1 positive 2)))"

definition get_reaction_activity :: "solution \<Rightarrow> real list \<Rightarrow> real \<Rightarrow> py_error + real list" where
  "get_reaction_activity sol exp_vector flux_threshold =
     activity_of_fluxes (np_array_of_strs (map fst (var_values sol))) exp_vector flux_threshold"

subsection \<open>Fold-back (\<^verbatim>\<open>GIMME.run\<close>, line 68)\<close>

text \<open>
  \<^verbatim>\<open>reaction_activity_original = [np.max(reaction_activity_irrev_model[new])
        for orig, new in irrev_mapping]\<close>

  Iterating a dict yields its keys, here the original reaction indices, and an
  \<^verbatim>\<open>int\<close> cannot be unpacked into \<^verbatim>\<open>orig, new\<close>: \<^verbatim>\<open>TypeError\<close> at the first key.
  Indexing a one-dimensional array by a tuple of two integers would raise
  \<^verbatim>\<open>IndexError\<close> (too many indices).
\<close>

definition unpack_key :: "nat \<Rightarrow> py_error + (nat \<times> slot)" where
  "unpack_key k = Inl TypeError"

fun np_max_at :: "real list \<Rightarrow> slot \<Rightarrow> py_error + real" where
  "np_max_at a (Index k) = getitem a k"
| "np_max_at a (Tuple fwd bwd) = Inl IndexError"

definition fold_back :: "rx_dict \<Rightarrow> real list \<Rightarrow> py_error + real list" where
  "fold_back irrev_mapping reaction_activity_irrev_model =
     mapM (\<lambda>k. ebind (unpack_key k) (\<lambda>(orig, new). np_max_at reaction_activity_irrev_model new))
       (map fst irrev_mapping)"

subsection \<open>\<^verbatim>\<open>GIMME.run\<close> after preprocessing (lines 43-70)\<close>

text \<open>
  The solver is given the system (matrix and bounds), the objective and the second
  argument of \<^verbatim>\<open>set_objective\<close>. Phase 1 solves on the untightened bounds, phase 2 on
  the tightened ones.
\<close>

definition run_after_preprocess ::
  "(matrix \<times> real list \<times> real list \<Rightarrow> optimizer) \<Rightarrow> real \<Rightarrow> matrix \<Rightarrow> real list \<Rightarrow> real list
     \<Rightarrow> rx_dict \<Rightarrow> real list \<Rightarrow> real list list \<Rightarrow> py_error + real list" where
  "run_after_preprocess solver flux_thres S lb ub irrev_mapping exp_vector objectives =
     (let N = length S in
      ebind (objective_values (solver (S, lb, ub)) objectives) (\<lambda>objective_vals.
      ebind (gimme_model_objective flux_thres exp_vector N) (\<lambda>gimme_objective.
      ebind (tighten_lb lb objectives objective_vals) (\<lambda>lb'.
      ebind (solver (S, lb', ub) gimme_objective None) (\<lambda>gimme_solution.
      ebind (get_reaction_activity gimme_solution exp_vector flux_thres) (\<lambda>activity.
      fold_back irrev_mapping activity))))))"


subsection \<open>The end of \<^verbatim>\<open>ReconstructionWrapper.run_from_omics\<close> (lines 219-229)\<close>

text \<open>
  \<^verbatim>\<open>try:
      algorithm_result = self.run(properties)
      result_names = [self.model_reader.r_ids[k] for k in algorithm_result]
      return {k: k in result_names for k in self.model_reader.r_ids}
  except Exception as e:
      print('Model reconstruction failed with exception:', e)
      if raise_errors:
          raise e
      else:
          return {r: False for r in self.model_reader.r_ids}\<close>

  The outcome of \<^verbatim>\<open>self.run(properties)\<close> is a parameter: the list of indices the
  algorithm returns, or the exception it raises (every \<open>py_error\<close> is an instance of
  \<^verbatim>\<open>Exception\<close>). \<^verbatim>\<open>raise_errors\<close> is a keyword argument with default \<^verbatim>\<open>True\<close>:
  \<open>None\<close> is the call that does not pass it. Standard output is the list of the
  printed lines, each the text and the exception printed after it.
\<close>

definition py_getitem :: "'a list \<Rightarrow> int \<Rightarrow> py_error + 'a" where
  "py_getitem xs k =
     (if 0 \<le> k \<and> k < int (length xs) then Inr (xs ! nat k)
      else if k < 0 \<and> - int (length xs) \<le> k then Inr (xs ! nat (k + int (length xs)))
      else Inl IndexError)"

definition dict_of_items :: "('k \<times> 'v) list \<Rightarrow> ('k \<times> 'v) list" where
  "dict_of_items kvs = dict_update [] kvs"

definition run_from_omics_try ::
  "string list \<Rightarrow> py_error + int list \<Rightarrow> bool option
     \<Rightarrow> (string \<times> py_error) list \<times> (py_error + (string \<times> bool) list)" where
  "run_from_omics_try r_ids run_outcome raise_errors_arg =
     (let raise_errors = (case raise_errors_arg of None \<Rightarrow> True | Some b \<Rightarrow> b);
          attempt =
            ebind run_outcome (\<lambda>algorithm_result.
            ebind (mapM (py_getitem r_ids) algorithm_result) (\<lambda>result_names.
            Inr (dict_of_items (map (\<lambda>k. (k, k \<in> set result_names)) r_ids))))
      in case attempt of
           Inr res \<Rightarrow> ([], Inr res)
         | Inl e \<Rightarrow>
             ([(''Model reconstruction failed with exception:'', e)],
              if raise_errors then Inl e
              else Inr (dict_of_items (map (\<lambda>r. (r, False)) r_ids))))"

subsection \<open>\<^verbatim>\<open>GIMMEProperties.__init__\<close> (lines 29-44)\<close>

text \<open>
  \<^verbatim>\<open>new_mandatory = {
      'exp_vector': lambda x: isinstance(x, list) and len(x) > 0 or isinstance(x, ndarray),
      'preprocess': lambda x: isinstance(x, bool) or x is None,
      'objectives': lambda x: type(x) in [list, ndarray]}
  new_optional = {'obj_frac': lambda x: type(x) in [ndarray, list, tuple, float]}
  super().__init__()
  self.add_new_properties(new_mandatory, new_optional)
  self['objectives'] = objectives
  self['exp_vector'] = exp_vector
  self['obj_frac'] = obj_frac if isinstance(obj_frac, ndarray)
        else array([obj_frac]*len(objectives))
  self['preprocess'] = True if preprocess else False
  self['flux_threshold'] = 1e-4 if flux_threshold is None else flux_threshold\<close>

  The module binds the names of its two import lines and of its three classes;
  \<^verbatim>\<open>ndarray\<close> and \<^verbatim>\<open>array\<close> are not among them. Reading a name that the module does
  not bind raises \<^verbatim>\<open>NameError\<close>. The constructor takes the bound names as a
  parameter, so that it can also be run in a module that imports the two from NumPy.
\<close>

definition module_names :: "string list" where
  "module_names =
     [''PropertyDictionary'', ''model_readers'', ''MethodsReconstruction'',
      ''PropertiesReconstruction'', ''FastcoreProperties'', ''GIMMEProperties'']"

definition read_name :: "string list \<Rightarrow> string \<Rightarrow> py_error + unit" where
  "read_name names n = (if n \<in> set names then Inr () else Inl NameError)"

text \<open>
  The arguments: \<^verbatim>\<open>exp_vector\<close> is a list or an array, \<^verbatim>\<open>objectives\<close> a list or an
  array of vectors (its length is all the constructor uses), \<^verbatim>\<open>obj_frac\<close> a float, a
  list, a tuple or an array, \<^verbatim>\<open>preprocess\<close> a bool or \<^verbatim>\<open>None\<close>, \<^verbatim>\<open>flux_threshold\<close>
  a float or \<^verbatim>\<open>None\<close>.
\<close>

datatype exp_vector_arg = ExpList "real list" | ExpArray "real list"

datatype obj_frac_arg =
    FracFloat real | FracList "real list" | FracTuple "real list" | FracArray "real list"

datatype frac_array = Array1 "real list" | Array2 "real list list"

record gimme_properties =
  p_objectives :: "real list list"
  p_exp_vector :: exp_vector_arg
  p_obj_frac :: frac_array
  p_preprocess :: bool
  p_flux_threshold :: real

text \<open>
  Item assignment on cobamp's \<^verbatim>\<open>PropertyDictionary\<close> runs the validator registered
  for the key and stores the value when the validator accepts it; a validating
  function that returns a false value makes the assignment raise
  \<^verbatim>\<open>AssertionError\<close>. The validators below are the lambdas of lines 32-35 on the
  values that reach them. \<^verbatim>\<open>A and B or C\<close> evaluates \<^verbatim>\<open>C\<close> only when \<^verbatim>\<open>A and B\<close> is
  false; a list display evaluates each of its elements. The validator of
  \<^verbatim>\<open>preprocess\<close> accepts every bool and the type check of \<^verbatim>\<open>flux_threshold\<close> every
  float, and both read no name of NumPy.
\<close>

definition check_objectives :: "string list \<Rightarrow> real list list \<Rightarrow> py_error + unit" where
  "check_objectives names objectives = read_name names ''ndarray''"

fun check_exp_vector :: "string list \<Rightarrow> exp_vector_arg \<Rightarrow> py_error + unit" where
  "check_exp_vector names (ExpList xs) =
     (if 0 < length xs then Inr ()
      else ebind (read_name names ''ndarray'') (\<lambda>u. Inl AssertionError))"
| "check_exp_vector names (ExpArray xs) = read_name names ''ndarray''"

definition check_obj_frac :: "string list \<Rightarrow> frac_array \<Rightarrow> py_error + unit" where
  "check_obj_frac names a = read_name names ''ndarray''"

text \<open>
  The right-hand side of line 42. \<^verbatim>\<open>array\<close> of a list of \<open>k\<close> floats is a
  one-dimensional array; of \<open>k > 0\<close> lists or tuples a two-dimensional one; of the
  empty list the empty one-dimensional array.
\<close>

fun normalise_obj_frac :: "string list \<Rightarrow> obj_frac_arg \<Rightarrow> nat \<Rightarrow> py_error + frac_array" where
  "normalise_obj_frac names (FracArray a) k =
     ebind (read_name names ''ndarray'') (\<lambda>u. Inr (Array1 a))"
| "normalise_obj_frac names (FracFloat x) k =
     ebind (read_name names ''ndarray'') (\<lambda>u.
     ebind (read_name names ''array'') (\<lambda>u. Inr (Array1 (replicate k x))))"
| "normalise_obj_frac names (FracList xs) k =
     ebind (read_name names ''ndarray'') (\<lambda>u.
     ebind (read_name names ''array'') (\<lambda>u.
       Inr (if k = 0 then Array1 [] else Array2 (replicate k xs))))"
| "normalise_obj_frac names (FracTuple xs) k =
     ebind (read_name names ''ndarray'') (\<lambda>u.
     ebind (read_name names ''array'') (\<lambda>u.
       Inr (if k = 0 then Array1 [] else Array2 (replicate k xs))))"

definition GIMMEProperties ::
  "string list \<Rightarrow> exp_vector_arg \<Rightarrow> real list list \<Rightarrow> obj_frac_arg \<Rightarrow> bool option \<Rightarrow> real option
     \<Rightarrow> py_error + gimme_properties" where
  "GIMMEProperties names exp_vector objectives obj_frac preprocess flux_threshold =
     ebind (check_objectives names objectives) (\<lambda>u.
     ebind (check_exp_vector names exp_vector) (\<lambda>u.
     ebind (normalise_obj_frac names obj_frac (length objectives)) (\<lambda>frac.
     ebind (check_obj_frac names frac) (\<lambda>u.
       Inr \<lparr> p_objectives = objectives,
             p_exp_vector = exp_vector,
             p_obj_frac = frac,
             p_preprocess = (case preprocess of None \<Rightarrow> False | Some b \<Rightarrow> if b then True else False),
             p_flux_threshold = (case flux_threshold of None \<Rightarrow> 1 / 10000 | Some t \<Rightarrow> t) \<rparr>))))"

section \<open>Supporting lemmas\<close>

lemma ebind_Inr [simp]: "ebind (Inr x) f = f x"
  by (simp add: ebind_def)

lemma ebind_Inl [simp]: "ebind (Inl e) f = Inl e"
  by (simp add: ebind_def)

lemma ebind_eq_Inr: "ebind m f = Inr y \<longleftrightarrow> (\<exists>x. m = Inr x \<and> f x = Inr y)"
  by (cases m) simp_all

lemma set_nonzero: "set (nonzero xs) = {i. i < length xs \<and> xs ! i \<noteq> 0}"
  by (auto simp: nonzero_def)

lemma fold_update_length: "length (fold (\<lambda>i l. l[i := f i]) ids l) = length l"
  by (induction ids arbitrary: l) simp_all

lemma fold_update_nth:
  "j < length l \<Longrightarrow> fold (\<lambda>i l. l[i := f i]) ids l ! j = (if j \<in> set ids then f j else l ! j)"
proof (induction ids arbitrary: l)
  case Nil
  then show ?case by simp
next
  case (Cons a ids)
  then show ?case by (simp add: nth_list_update)
qed

lemma mapM_all_Inr:
  "list_all (\<lambda>x. \<not> isl (f x)) xs \<Longrightarrow> mapM f xs = Inr (map (\<lambda>x. projr (f x)) xs)"
proof (induction xs)
  case Nil
  then show ?case by simp
next
  case (Cons a xs)
  then show ?case by (cases "f a") simp_all
qed

lemma mapM_first_Inl:
  "list_all (\<lambda>x. \<not> isl (f x)) pre \<Longrightarrow> f x = Inl e \<Longrightarrow> mapM f (pre @ x # post) = Inl e"
proof (induction pre)
  case Nil
  then show ?case by simp
next
  case (Cons a pre)
  then show ?case by (cases "f a") simp_all
qed

lemma map_of_dict_set: "map_of (dict_set k v d) = (map_of d)(k \<mapsto> v)"
  by (induction d) (auto simp: fun_upd_twist)

lemma map_of_dict_update_const:
  "map_of (dict_update d (map (\<lambda>r. (r, c)) rs)) r =
     (if r \<in> set rs then Some c else map_of d r)"
  unfolding dict_update_def
  by (induction rs arbitrary: d) (auto simp: map_of_dict_set)

text \<open>
  What lines 102-105 do once they are given numbers: positive flux gives 2, otherwise
  evidence above the threshold or the sentinel \<open>-1\<close> gives 1, otherwise 0.
\<close>

lemma activity_of_float_fluxes:
  assumes "length fluxes = length exp_vector"
  shows "activity_of_fluxes (FloatArray fluxes) exp_vector t =
           Inr (map2 (\<lambda>v e. if v > 0 then 2 else if e > t \<or> e = -1 then 1 else 0)
                  fluxes exp_vector)"
  using assms
  by (auto simp: activity_of_fluxes_def mask_assign_def Let_def list_eq_iff_nth_eq)

text \<open>
  One entry of the evidence: a reaction mapped to a tuple gets the value in both
  slots, a reaction mapped to a single index leaves the vector as it was.
\<close>

lemma exp_vector_loop_entry:
  "exp_vector_loop [(rxn, val)] [(rxn, Index k)] ev = Inr ev"
  "fwd < length ev \<Longrightarrow> bwd < length ev \<Longrightarrow>
     exp_vector_loop [(rxn, val)] [(rxn, Tuple fwd bwd)] ev = Inr (ev[fwd := val, bwd := val])"
  by (simp_all add: dict_get_def setitem_list_def)

lemma ebind_eq_Inl: "ebind m f = Inl e \<longleftrightarrow> m = Inl e \<or> (\<exists>x. m = Inr x \<and> f x = Inl e)"
  by (cases m) simp_all

lemma mapM_Inl: "mapM f xs = Inl e \<Longrightarrow> \<exists>x. f x = Inl e"
proof (induction xs)
  case Nil
  then show ?case by simp
next
  case (Cons a xs)
  then show ?case by (auto simp: ebind_eq_Inl)
qed

lemma objective_values_Inl:
  "objective_values optimize objs = Inl e \<Longrightarrow> \<exists>obj. optimize obj (Some False) = Inl e"
  unfolding objective_values_def
  by (drule mapM_Inl) (auto simp: find_objective_value_def ebind_eq_Inl)

lemma gimme_model_objective_Inl: "gimme_model_objective t ev N = Inl e \<Longrightarrow> e = IndexError"
  by (simp add: gimme_model_objective_def split: if_splits)

lemma np_add_Inl: "np_add a b = Inl e \<Longrightarrow> e = ValueError"
  by (cases a; cases b) (simp_all split: if_splits)

lemma py_sum_Inl: "py_sum acc xs = Inl e \<Longrightarrow> e = ValueError"
  by (induction xs arbitrary: acc) (auto simp: ebind_eq_Inl dest: np_add_Inl)

lemma tighten_lb_Inl:
  "tighten_lb lb objs vals = Inl e \<Longrightarrow> e = ValueError \<or> e = TypeError \<or> e = IndexError"
proof (cases "objective_lbs objs vals")
  case (Inl a)
  then have "a = ValueError"
    unfolding objective_lbs_def by (rule py_sum_Inl)
  with Inl show "tighten_lb lb objs vals = Inl e \<Longrightarrow> ?thesis"
    by (simp add: tighten_lb_def)
next
  case (Inr v)
  then show "tighten_lb lb objs vals = Inl e \<Longrightarrow> ?thesis"
    by (cases v) (simp_all add: tighten_lb_def Let_def split: if_splits)
qed

lemma get_reaction_activity_Inl:
  "get_reaction_activity sol ev t = Inl e \<Longrightarrow> e = TypeError \<or> e = IndexError"
  by (cases "np_array_of_strs (map fst (var_values sol))")
     (auto simp: get_reaction_activity_def activity_of_fluxes_def mask_assign_def Let_def
        ebind_eq_Inl split: if_splits)

lemma fold_back_Inl: "fold_back m act = Inl e \<Longrightarrow> e = TypeError"
  unfolding fold_back_def
  by (drule mapM_Inl) (simp add: unpack_key_def)

lemma read_name_module [simp]:
  "read_name module_names ''ndarray'' = Inl NameError"
  "read_name module_names ''array'' = Inl NameError"
  by (simp_all add: read_name_def module_names_def)

text \<open>
  The constructor of the properties in a module that does import \<^verbatim>\<open>ndarray\<close> and
  \<^verbatim>\<open>array\<close>: a float \<^verbatim>\<open>obj_frac\<close> is stored as one copy per objective,
  \<^verbatim>\<open>preprocess\<close> as a bool and a missing \<^verbatim>\<open>flux_threshold\<close> as \<open>1e-4\<close>, unless
  \<^verbatim>\<open>exp_vector\<close> is the empty list, which its validator refuses.
\<close>

lemma GIMMEProperties_with_numpy:
  assumes "''ndarray'' \<in> set names" and "''array'' \<in> set names"
    and "exp_vector \<noteq> ExpList []"
  shows "GIMMEProperties names exp_vector objectives (FracFloat x) preprocess flux_threshold =
     Inr \<lparr> p_objectives = objectives, p_exp_vector = exp_vector,
           p_obj_frac = Array1 (replicate (length objectives) x),
           p_preprocess = (preprocess = Some True),
           p_flux_threshold = (case flux_threshold of None \<Rightarrow> 1 / 10000 | Some t \<Rightarrow> t) \<rparr>"
    and "GIMMEProperties names (ExpList []) objectives obj_frac preprocess flux_threshold =
     Inl AssertionError"
  using assms
  by (cases exp_vector; cases preprocess;
      simp add: GIMMEProperties_def check_objectives_def check_obj_frac_def read_name_def)+

section \<open>The claims\<close>

text \<open>
  C1. The claim: the transform gives a split reaction a forward slot with bounds
  \<open>(0, ub[i])\<close> and a backward slot with bounds \<open>(0, -lb[i])\<close>, keeps the bounds of a
  reaction that is not split, and one reversible reaction with \<open>lb = -5\<close>, \<open>ub = 5\<close>
  yields two columns with bounds \<open>(0,5)\<close> and \<open>(0,5)\<close>.

  The code at that input (one metabolite, one reaction): no reaction is irreversible,
  so line 83 indexes with an empty float array and raises. On the loop of lines 91-96
  alone, started from two zero arrays and the map \<open>{0: (0, 1)}\<close>, the forward slot gets
  the upper bound \<open>lb[0] = -5\<close> and the backward slot \<open>ub[0] = 5\<close>. With an
  irreversible reaction beside the reversible one the layout is built (its forward and
  backward columns are copies of column 0, not of the reversible column), line 90
  raises \<^verbatim>\<open>ValueError\<close>, and the loop alone again stores \<open>-5\<close> as the forward upper
  bound.
\<close>

theorem make_irreversible_scenario_B:
  "make_irreversible [] (irrev_mapping_spec []) [[1]] [-5] [5] = Inl IndexError \<and>
   bounds_loop [(0, Tuple 0 1)] [-5] [5] (Array [0, 0], Array [0, 0]) =
     Inr (Array [0, 0], Array [-5, 5]) \<and>
   irreversible_layout [] (irrev_mapping_spec [0]) [[1], [2]] [0, -5] [10, 5] =
     Inr ([[1], [1], [-1]], [(1, Tuple 1 2), (0, Index 0)]) \<and>
   make_irreversible [] (irrev_mapping_spec [0]) [[1], [2]] [0, -5] [10, 5] = Inl ValueError \<and>
   bounds_loop [(1, Tuple 1 2), (0, Index 0)] [0, -5] [10, 5] (Array [0, 0, 0], Array [0, 0, 0]) =
     Inr (Array [0, 0, 0], Array [10, -5, 5])"
  by (simp add: make_irreversible_def irreversible_layout_def irrev_mapping_spec_def
      reversible_def getitem_def take_columns_def unpack2_def upt_rec dict_update_def
      enumerate_eq_zip Let_def)

text \<open>
  C2, as the specification states it: after tightening every lower bound is at least
  what it was. It fails: with \<open>lb' = [5]\<close>, one objective \<open>[1/2]\<close> and its optimum \<open>5\<close>
  (the maximum of \<open>v/2\<close> for \<open>v \<le> 10\<close>), the combined bound is \<open>5/2\<close> and line 59 stores
  it over the \<open>5\<close>.
\<close>

theorem tighten_lb_loosens:
  "tighten_lb [5] [[1/2]] [5] = Inr [5/2] \<and> [5/2 :: real] ! 0 < [5] ! 0"
  by (simp add: tighten_lb_def objective_lbs_def nonzero_def)

text \<open>
  C2, amended. When the tightening step returns, the combined vector \<open>objective_lbs\<close>
  is an array, the bound vector keeps its length, every index where \<open>objective_lbs\<close> is
  non-zero holds \<open>objective_lbs[index]\<close> (whether larger or smaller than the bound it
  replaces), and every other index keeps its bound. So the new bound at an index is at
  least the old one exactly when \<open>objective_lbs\<close> is zero or absent there or is itself
  at least the old bound.
\<close>

theorem tighten_lb_overwrites:
  assumes "tighten_lb lb objectives objective_vals = Inr lb'"
  shows "\<exists>olb. objective_lbs objectives objective_vals = Inr (Array olb) \<and>
           length lb' = length lb \<and>
           (\<forall>i<length lb.
              lb' ! i = (if i < length olb \<and> olb ! i \<noteq> 0 then olb ! i else lb ! i) \<and>
              (lb ! i \<le> lb' ! i) = (length olb \<le> i \<or> olb ! i = 0 \<or> lb ! i \<le> olb ! i))"
proof -
  from assms obtain v where v: "objective_lbs objectives objective_vals = Inr v"
    by (auto simp: tighten_lb_def ebind_eq_Inr)
  with assms obtain olb where olb: "v = Array olb"
    by (cases v) (simp_all add: tighten_lb_def)
  from assms v olb have lb': "lb' = fold (\<lambda>i l. l[i := olb ! i]) (nonzero olb) lb"
    by (simp add: tighten_lb_def Let_def split: if_splits)
  show ?thesis
    using v olb by (auto simp: lb' fold_update_length fold_update_nth set_nonzero)
qed

theorem tighten_lb_overwrites_witness:
  "tighten_lb [5, 0] [[1/2, 0], [0, 1]] [5, 4] = Inr [5/2, 4] \<and>
   objective_lbs [[1/2, 0], [0, 1]] [5, 4] = Inr (Array [5/2, 4])"
  using tighten_lb_overwrites [of "[5, 0]" "[[1/2, 0], [0, 1]]" "[5, 4]" "[5/2, 4]"]
  by (simp add: tighten_lb_def objective_lbs_def nonzero_def upt_rec)

text \<open>
  C3. The claim: every supplied (reaction, value) pair is assigned, to both slots for
  a pair entry and to the single slot for a scalar entry. The code at the evidence
  \<open>{0: 3}\<close> with the map \<open>{0: 0}\<close> over one column: the loop has no branch for a
  scalar entry, and slot 0 keeps the initial \<open>0\<close> instead of receiving \<open>3\<close>.
\<close>

theorem preprocess_exp_vector_drops_scalar:
  "preprocess_exp_vector [(0, 3)] [(0, Index 0)] [[1]] = Inr [0]"
  by (simp add: preprocess_exp_vector_def dict_get_def)

text \<open>
  C4. For every index \<open>i\<close> of the irreversible system the phase-2 penalty is
  \<open>flux_threshold - evidence[i]\<close> when \<open>-1 < evidence[i] < flux_threshold\<close> and \<open>0\<close>
  otherwise; an evidence value equal to the threshold and the sentinel \<open>-1\<close> both give
  penalty \<open>0\<close>. The vector is produced (no exception) as soon as the evidence vector
  covers the \<open>N\<close> columns.
\<close>

theorem gimme_model_objective_penalty:
  assumes "N \<le> length exp_vector"
  shows "\<exists>p. gimme_model_objective t exp_vector N = Inr p \<and> length p = N \<and>
           (\<forall>i<N. p ! i = (if -1 < exp_vector ! i \<and> exp_vector ! i < t
                            then t - exp_vector ! i else 0) \<and>
                   (exp_vector ! i = t \<longrightarrow> p ! i = 0) \<and>
                   (exp_vector ! i = -1 \<longrightarrow> p ! i = 0))"
  using assms by (simp add: gimme_model_objective_def)

theorem gimme_model_objective_penalty_witness:
  "(3::nat) \<le> length [1/10000, -1, 0::real] \<and>
   gimme_model_objective (1/10000) [1/10000, -1, 0] 3 = Inr [0, 0, 1/10000]"
  using gimme_model_objective_penalty [of 3 "[1/10000, -1, 0]" "1/10000"]
  by (simp add: gimme_model_objective_def upt_rec)

text \<open>
  C5. The claim: activity is 2 where the solution flux is positive, else 1 where the
  evidence is above the threshold or is \<open>-1\<close>, else 0. The code at a solution whose
  single variable \<^verbatim>\<open>GIMME0\<close> carries flux 1, evidence \<open>[0]\<close>, threshold \<open>1e-4\<close>: line 101
  collects the names of the variables, not their values, and the comparison of line
  105 raises \<^verbatim>\<open>TypeError\<close>; the claim gives activity \<open>[2]\<close>.
\<close>

theorem get_reaction_activity_reads_names:
  "get_reaction_activity
     \<lparr>status = Optimal, objective_value = 0, var_values = [(''GIMME0'', 1)]\<rparr> [0] (1/10000) =
     Inl TypeError"
  by (simp add: get_reaction_activity_def np_array_of_strs_def activity_of_fluxes_def
      mask_assign_def)

text \<open>
  C6. The claim: \<open>N' = |irrev| + 2|rev|\<close>, and the map covers the new indices one to
  one. The code at three reactions with bounds \<open>(0,10)\<close>, \<open>(0,10)\<close>, \<open>(-5,5)\<close>:
  \<^verbatim>\<open>S[:,-irrev]\<close> takes columns \<open>0\<close> and \<open>-1\<close>, so \<^verbatim>\<open>Sr\<close> has as many columns as
  \<^verbatim>\<open>Si\<close>; the new matrix has 6 columns where the claim counts 4, reaction 2 maps to
  \<open>(2, 4)\<close>, and the new indices 3 and 5 belong to no reaction.
\<close>

theorem irreversible_layout_miscounts:
  "irreversible_layout [] (irrev_mapping_spec [0, 1]) [[1], [2], [3]] [0, 0, -5] [10, 10, 5] =
     Inr ([[1], [2], [1], [3], [-1], [-3]], [(2, Tuple 2 4), (0, Index 0), (1, Index 1)]) \<and>
   length [[1], [2], [1], [3], [-1], [-3 :: real]] \<noteq> length [0 :: nat, 1] + 2 * length [2 :: nat]"
  by (simp add: irreversible_layout_def irrev_mapping_spec_def reversible_def getitem_def
      take_columns_def upt_rec dict_update_def enumerate_eq_zip Let_def)

text \<open>
  C7. The claim: expanding an evidence vector and folding it back by the maximum over
  each reaction's slots returns the vector. The code at the evidence \<open>{0: 3, 1: 7}\<close>
  with the map \<open>{1: (1, 2), 0: 0}\<close>: the expansion is \<open>[0, 7, 7]\<close>, the value 3 of the
  reaction that is not split is lost, and the fold-back of line 68 raises
  \<^verbatim>\<open>TypeError\<close> at the first key of the map.
\<close>

theorem expand_fold_back_fails:
  "preprocess_exp_vector [(0, 3), (1, 7)] [(1, Tuple 1 2), (0, Index 0)] [[1], [1], [-1]] =
     Inr [0, 7, 7] \<and>
   fold_back [(1, Tuple 1 2), (0, Index 0)] [0, 7, 7] = Inl TypeError"
  by (simp add: preprocess_exp_vector_def dict_get_def setitem_list_def fold_back_def
      unpack_key_def)

text \<open>
  C8, as the specification states it: a phase-1 solve that is infeasible fails the run
  with \<open>ReconstructionInfeasibleError\<close>, and the engine never goes on to phase 2. It
  fails: with a solver that reports the second of two objectives infeasible (and that
  raises a marker exception when asked for the phase-2 solve), phase 1 returns the two
  objective values and the run ends with the marker: phase 2 was reached.
\<close>

theorem phase1_infeasible_proceeds:
  "(let solver = (\<lambda>sys obj flag.
          if flag = None then Inl (SolverError ''phase 2 reached'')
          else if obj = [0, 1]
          then Inr \<lparr>status = Infeasible, objective_value = 0, var_values = []\<rparr>
          else Inr \<lparr>status = Optimal, objective_value = 10, var_values = []\<rparr>)
    in solver ([[1], [1]], [0, 0], [10, 10]) [0, 1] (Some False) =
         Inr \<lparr>status = Infeasible, objective_value = 0, var_values = []\<rparr> \<and>
       objective_values (solver ([[1], [1]], [0, 0], [10, 10])) [[1, 0], [0, 1]] = Inr [10, 0] \<and>
       run_after_preprocess solver (1/10000) [[1], [1]] [0, 0] [10, 10]
           [(0, Index 0), (1, Index 1)] [0, 0] [[1, 0], [0, 1]] =
         Inl (SolverError ''phase 2 reached''))"
proof -
  define solver :: "matrix \<times> real list \<times> real list \<Rightarrow> optimizer" where
    "solver = (\<lambda>sys obj flag.
          if flag = None then Inl (SolverError ''phase 2 reached'')
          else if obj = [0, 1]
          then Inr \<lparr>status = Infeasible, objective_value = 0, var_values = []\<rparr>
          else Inr \<lparr>status = Optimal, objective_value = 10, var_values = []\<rparr>)"
  have s1: "solver sys [1, 0] (Some False) =
      Inr \<lparr>status = Optimal, objective_value = 10, var_values = []\<rparr>" for sys
    by (simp add: solver_def)
  have s2: "solver sys [0, 1] (Some False) =
      Inr \<lparr>status = Infeasible, objective_value = 0, var_values = []\<rparr>" for sys
    by (simp add: solver_def)
  have s3: "solver sys obj None = Inl (SolverError ''phase 2 reached'')" for sys obj
    by (simp add: solver_def)
  have ov: "objective_values (solver sys) [[1, 0], [0, 1]] = Inr [10, 0]" for sys
    by (simp add: objective_values_def find_objective_value_def s1 s2)
  have pen: "gimme_model_objective (1/10000) [0, 0] (length [[1], [1::real]]) =
      Inr [1/10000, 1/10000]"
    by (simp add: gimme_model_objective_def upt_rec)
  have tl: "tighten_lb [0, 0] [[1, 0], [0, 1]] [10, 0] = Inr [10, 0]"
    by (simp add: tighten_lb_def objective_lbs_def nonzero_def upt_rec)
  have run: "run_after_preprocess solver (1/10000) [[1], [1]] [0, 0] [10, 10]
           [(0, Index 0), (1, Index 1)] [0, 0] [[1, 0], [0, 1]] =
         Inl (SolverError ''phase 2 reached'')"
    unfolding run_after_preprocess_def Let_def ov pen tl ebind_Inr s3 ebind_Inl by (rule refl)
  from s2 [of "([[1], [1]], [0, 0], [10, 10])"] ov [of "([[1], [1]], [0, 0], [10, 10])"] run
  show ?thesis
    unfolding Let_def solver_def by (intro conjI)
qed

text \<open>
  C8, amended. Phase 1 never looks at the status of a solution. When every phase-1
  solver call returns a solution, whatever its status, phase 1 returns the objective
  value each solution reports, in order, and the run is the rest of the pipeline on
  exactly those values: the penalty vector, the tightening of the bounds with them,
  then the phase-2 solve on the tightened system, the activity calls and the
  fold-back, each step reached when the ones before it raise nothing and the first
  exception among them ending the run. When a phase-1 solver call itself raises, the
  run ends with that exception at the first such objective. Whatever the objectives,
  an exception that ends the run is one that some solver call raised, or an
  \<^verbatim>\<open>IndexError\<close>, a \<^verbatim>\<open>TypeError\<close> or a \<^verbatim>\<open>ValueError\<close> of the engine's own steps: the
  engine raises no \<open>ReconstructionInfeasibleError\<close> of its own.
\<close>

theorem run_ignores_status:
  fixes solver :: "matrix \<times> real list \<times> real list \<Rightarrow> optimizer"
  defines "vals \<equiv> \<lambda>S lb ub objs.
     map (\<lambda>obj. objective_value (projr (solver (S, lb, ub) obj (Some False)))) objs"
  assumes "list_all (\<lambda>obj. \<not> isl (solver (S, lb, ub) obj (Some False))) pre"
  shows "objective_values (solver (S, lb, ub)) pre = Inr (vals S lb ub pre) \<and>
         run_after_preprocess solver t S lb ub m ev pre =
           ebind (gimme_model_objective t ev (length S)) (\<lambda>penalty.
           ebind (tighten_lb lb pre (vals S lb ub pre)) (\<lambda>lb'.
           ebind (solver (S, lb', ub) penalty None) (\<lambda>sol.
           ebind (get_reaction_activity sol ev t) (\<lambda>activity. fold_back m activity)))) \<and>
         (solver (S, lb, ub) obj (Some False) = Inl e \<longrightarrow>
            run_after_preprocess solver t S lb ub m ev (pre @ obj # post) = Inl e) \<and>
         (run_after_preprocess solver t S lb ub m ev objs = Inl e' \<longrightarrow>
            (\<exists>sys o' f. solver sys o' f = Inl e') \<or>
            e' = IndexError \<or> e' = TypeError \<or> e' = ValueError)"
proof -
  let ?opt = "solver (S, lb, ub)"
  have ok: "list_all (\<lambda>obj. \<not> isl (find_objective_value ?opt obj)) pre"
    using assms(2)
    by (induction pre) (auto simp: find_objective_value_def ebind_def split: sum.splits)
  have val: "projr (find_objective_value ?opt x) = objective_value (projr (?opt x (Some False)))"
    if "\<not> isl (?opt x (Some False))" for x
    using that by (cases "?opt x (Some False)") (simp_all add: find_objective_value_def)
  have "map (\<lambda>x. projr (find_objective_value ?opt x)) pre = vals S lb ub pre"
    unfolding vals_def using assms(2) by (induction pre) (simp_all add: val)
  then have phase1: "objective_values ?opt pre = Inr (vals S lb ub pre)"
    using mapM_all_Inr [OF ok] by (simp add: objective_values_def)
  have rest: "run_after_preprocess solver t S lb ub m ev pre =
           ebind (gimme_model_objective t ev (length S)) (\<lambda>penalty.
           ebind (tighten_lb lb pre (vals S lb ub pre)) (\<lambda>lb'.
           ebind (solver (S, lb', ub) penalty None) (\<lambda>sol.
           ebind (get_reaction_activity sol ev t) (\<lambda>activity. fold_back m activity))))"
    unfolding run_after_preprocess_def Let_def phase1 ebind_Inr by (rule refl)
  have raise: "run_after_preprocess solver t S lb ub m ev (pre @ obj # post) = Inl e"
    if "?opt obj (Some False) = Inl e"
  proof -
    from that have "find_objective_value ?opt obj = Inl e"
      by (simp add: find_objective_value_def)
    from mapM_first_Inl [OF ok this]
    have "objective_values ?opt (pre @ obj # post) = Inl e"
      by (simp add: objective_values_def)
    then show ?thesis
      unfolding run_after_preprocess_def Let_def by simp
  qed
  have kinds: "(\<exists>sys o' f. solver sys o' f = Inl e') \<or>
            e' = IndexError \<or> e' = TypeError \<or> e' = ValueError"
    if r: "run_after_preprocess solver t S lb ub m ev objs = Inl e'"
  proof -
    from r consider
        (p1) "objective_values ?opt objs = Inl e'"
      | (pen) "gimme_model_objective t ev (length S) = Inl e'"
      | (tl) v where "tighten_lb lb objs v = Inl e'"
      | (p2) lb' penalty where "solver (S, lb', ub) penalty None = Inl e'"
      | (act) sol where "get_reaction_activity sol ev t = Inl e'"
      | (fb) a where "fold_back m a = Inl e'"
      unfolding run_after_preprocess_def Let_def ebind_eq_Inl by blast
    then show ?thesis
    proof cases
      case p1
      then show ?thesis by (blast dest: objective_values_Inl)
    next
      case pen
      then show ?thesis by (blast dest: gimme_model_objective_Inl)
    next
      case tl
      then show ?thesis by (blast dest: tighten_lb_Inl)
    next
      case p2
      then show ?thesis by blast
    next
      case act
      then show ?thesis by (blast dest: get_reaction_activity_Inl)
    next
      case fb
      then show ?thesis by (blast dest: fold_back_Inl)
    qed
  qed
  from phase1 rest raise kinds show ?thesis by blast
qed

theorem run_ignores_status_witness:
  "run_after_preprocess
     (\<lambda>sys obj flag.
        if flag = None then Inl (SolverError ''phase 2'')
        else if obj = [1, 0]
        then Inr \<lparr>status = Unbounded, objective_value = 7, var_values = []\<rparr>
        else Inr \<lparr>status = Optimal, objective_value = 3, var_values = []\<rparr>)
     (1/10000) [[1], [1]] [0, 0] [10, 10] [(0, Index 0), (1, Index 1)] [0, 0]
     [[1, 0], [0, 1]] = Inl (SolverError ''phase 2'') \<and>
   run_after_preprocess
     (\<lambda>sys obj flag.
        if obj = [0, 1] then Inl (SolverError ''no licence'')
        else Inr \<lparr>status = Optimal, objective_value = 10, var_values = []\<rparr>)
     (1/10000) [[1], [1]] [0, 0] [10, 10] [(0, Index 0), (1, Index 1)] [0, 0]
     ([[1, 0]] @ [0, 1] # []) = Inl (SolverError ''no licence'')"
proof -
  define sa :: "matrix \<times> real list \<times> real list \<Rightarrow> optimizer" where
    "sa = (\<lambda>sys obj flag.
        if flag = None then Inl (SolverError ''phase 2'')
        else if obj = [1, 0]
        then Inr \<lparr>status = Unbounded, objective_value = 7, var_values = []\<rparr>
        else Inr \<lparr>status = Optimal, objective_value = 3, var_values = []\<rparr>)"
  define sb :: "matrix \<times> real list \<times> real list \<Rightarrow> optimizer" where
    "sb = (\<lambda>sys obj flag.
        if obj = [0, 1] then Inl (SolverError ''no licence'')
        else Inr \<lparr>status = Optimal, objective_value = 10, var_values = []\<rparr>)"
  have ha: "list_all (\<lambda>obj. \<not> isl (sa ([[1], [1]], [0, 0], [10, 10]) obj (Some False)))
      [[1, 0], [0, 1]]"
    by (simp add: sa_def)
  have hb: "list_all (\<lambda>obj. \<not> isl (sb ([[1], [1]], [0, 0], [10, 10]) obj (Some False))) [[1, 0]]"
    by (simp add: sb_def)
  have vals: "map (\<lambda>obj. objective_value (projr (sa ([[1], [1]], [0, 0], [10, 10]) obj (Some False))))
      [[1, 0], [0, 1]] = [7, 3]"
    by (simp add: sa_def)
  have pen: "gimme_model_objective (1/10000) [0, 0] (length [[1], [1::real]]) =
      Inr [1/10000, 1/10000]"
    by (simp add: gimme_model_objective_def upt_rec)
  have tl: "tighten_lb [0, 0] [[1, 0], [0, 1]] [7, 3] = Inr [7, 3]"
    by (simp add: tighten_lb_def objective_lbs_def nonzero_def upt_rec)
  have s3: "sa sys obj None = Inl (SolverError ''phase 2'')" for sys obj
    by (simp add: sa_def)
  have "run_after_preprocess sa (1/10000) [[1], [1]] [0, 0] [10, 10]
          [(0, Index 0), (1, Index 1)] [0, 0] [[1, 0], [0, 1]] = Inl (SolverError ''phase 2'')"
    unfolding run_ignores_status [where solver = sa and S = "[[1], [1]]" and lb = "[0, 0]"
        and ub = "[10, 10]" and pre = "[[1, 0], [0, 1]]", OF ha, THEN conjunct2, THEN conjunct1]
      vals pen tl ebind_Inr s3 ebind_Inl by (rule refl)
  moreover have "sb ([[1], [1]], [0, 0], [10, 10]) [0, 1] (Some False) =
      Inl (SolverError ''no licence'')"
    by (simp add: sb_def)
  then have "run_after_preprocess sb (1/10000) [[1], [1]] [0, 0] [10, 10]
          [(0, Index 0), (1, Index 1)] [0, 0] ([[1, 0]] @ [0, 1] # []) =
        Inl (SolverError ''no licence'')"
    by (rule run_ignores_status [where solver = sb and S = "[[1], [1]]" and lb = "[0, 0]"
        and ub = "[10, 10]" and pre = "[[1, 0]]", OF hb, THEN conjunct2, THEN conjunct2,
        THEN conjunct1, rule_format])
  ultimately show ?thesis
    unfolding sa_def sb_def by (intro conjI)
qed

text \<open>
  C9. When the run of the algorithm raises: without the \<^verbatim>\<open>raise_errors\<close> argument
  (the default) and with \<^verbatim>\<open>raise_errors=True\<close> the exception is printed and raised
  again; only with \<^verbatim>\<open>raise_errors=False\<close> the call returns, after printing the
  exception, a mapping whose keys are the reaction identifiers, each with \<^verbatim>\<open>False\<close>.
\<close>

theorem run_from_omics_suppression:
  "run_from_omics_try r_ids (Inl e) None =
     ([(''Model reconstruction failed with exception:'', e)], Inl e) \<and>
   run_from_omics_try r_ids (Inl e) (Some True) =
     ([(''Model reconstruction failed with exception:'', e)], Inl e) \<and>
   (\<exists>res. run_from_omics_try r_ids (Inl e) (Some False) =
            ([(''Model reconstruction failed with exception:'', e)], Inr res) \<and>
          map_of res = (\<lambda>r. if r \<in> set r_ids then Some False else None))"
  by (auto simp: run_from_omics_try_def dict_of_items_def map_of_dict_update_const)

theorem run_from_omics_suppression_witness:
  "run_from_omics_try [''r1'', ''r2''] (Inl ValueError) (Some False) =
     ([(''Model reconstruction failed with exception:'', ValueError)],
      Inr [(''r1'', False), (''r2'', False)]) \<and>
   run_from_omics_try [''r1'', ''r2''] (Inl ValueError) None =
     ([(''Model reconstruction failed with exception:'', ValueError)], Inl ValueError)"
  using run_from_omics_suppression [of "[''r1'', ''r2'']" ValueError]
  by (simp add: run_from_omics_try_def dict_of_items_def dict_update_def)

text \<open>
  C10. The claim: the constructor stores a float \<^verbatim>\<open>obj_frac\<close> as an array of one copy
  per objective, \<^verbatim>\<open>preprocess\<close> as a bool and a missing \<^verbatim>\<open>flux_threshold\<close> as
  \<open>1e-4\<close>. The code, for every argument: the first store (line 40) runs the validator
  of line 34, which reads \<^verbatim>\<open>ndarray\<close>; the module does not bind that name, and the
  constructor raises \<^verbatim>\<open>NameError\<close> before anything is stored.
\<close>

theorem GIMMEProperties_raises_NameError:
  "GIMMEProperties module_names exp_vector objectives obj_frac preprocess flux_threshold =
     Inl NameError"
  by (simp add: GIMMEProperties_def check_objectives_def)

end
